theory Spec2Isabelle
  imports Main
begin

section \<open>JavaScript values\<close>

text \<open>
  The values that bot.js handles are parsed JSON documents (request bodies, the body of
  the answer of the Spark API) and the configuration object. They are modelled by one
  datatype of JavaScript values. \<open>Undefined\<close> is the value of a property that is absent.
  An object is the list of its own properties; a parsed JSON object has every key once,
  and a lookup takes the first entry of a key.

  A number is an integer here: the code looks at a number only through its truthiness
  (zero is falsy, every other number is truthy) and through string concatenation, which is
  kept symbolic below.
\<close>

datatype js =
    Undefined
  | Null
  | Bool bool
  | Num int
  | Str string
  | Arr "js list"
  | Obj "(string \<times> js) list"

text \<open>JavaScript's ToBoolean, which \<open>!x\<close>, \<open>x || y\<close> and \<open>if (x)\<close> apply.\<close>

fun truthy :: "js \<Rightarrow> bool" where
  "truthy Undefined = False"
| "truthy Null = False"
| "truthy (Bool b) = b"
| "truthy (Num n) = (n \<noteq> 0)"
| "truthy (Str s) = (s \<noteq> [])"
| "truthy (Arr xs) = True"
| "truthy (Obj kvs) = True"

text \<open>
  Property access \<open>v.k\<close>. On a string, number, boolean or array none of the names that
  bot.js reads is defined, so the access gives \<open>undefined\<close>. On \<open>null\<close> and \<open>undefined\<close>
  JavaScript throws; every access of the source is either behind a \<open>!v ||\<close> test of the
  same value, which short-cuts, or on a value already known to be truthy, so that case is
  never evaluated and the model returns \<open>Undefined\<close> for it.
\<close>

fun get :: "js \<Rightarrow> string \<Rightarrow> js" where
  "get (Obj kvs) k = (case map_of kvs k of Some v \<Rightarrow> v | None \<Rightarrow> Undefined)"
| "get v k = Undefined"

text \<open>\<open>a || b\<close> is the first operand when it is truthy, the second otherwise.\<close>

definition js_or :: "js \<Rightarrow> js \<Rightarrow> js" where
  "js_or a b = (if truthy a then a else b)"

section \<open>Conversion to a string\<close>

text \<open>
  \<open>s + v\<close> with a string \<open>s\<close> converts \<open>v\<close> to a string. The conversion of an object calls
  its \<open>toString\<close>; an object with an own property \<open>toString\<close> (which in parsed JSON is
  never a function) has none to call, and the conversion throws a TypeError. An array is
  converted by joining the conversions of its elements. Every other value converts.
\<close>

fun convertible :: "js \<Rightarrow> bool" where
  "convertible (Arr xs) = (\<forall>x\<in>set xs. convertible x)"
| "convertible (Obj kvs) = (map_of kvs ''toString'' = None)"
| "convertible v = True"

text \<open>
  \<open>all_chars P v\<close>: every character of the string that a convertible \<open>v\<close> converts to
  satisfies \<open>P\<close>. An object converts to \<open>[object Object]\<close>; an array to its elements
  joined by commas, where \<open>null\<close> and \<open>undefined\<close> elements give the empty string. A
  number converts to digits, a sign, a point and an exponent, or to \<open>Infinity\<close> or \<open>NaN\<close>;
  the two tests below accept all of these characters.
\<close>

fun all_chars :: "(char \<Rightarrow> bool) \<Rightarrow> js \<Rightarrow> bool" where
  "all_chars P Undefined = list_all P ''undefined''"
| "all_chars P Null = list_all P ''null''"
| "all_chars P (Bool b) = list_all P (if b then ''true'' else ''false'')"
| "all_chars P (Num n) = True"
| "all_chars P (Str s) = list_all P s"
| "all_chars P (Arr xs) =
     ((length xs < 2 \<or> P CHR '','')
      \<and> (\<forall>x\<in>set xs. x = Null \<or> x = Undefined \<or> all_chars P x))"
| "all_chars P (Obj kvs) = list_all P ''[object Object]''"

text \<open>
  Node's \<open>https.request\<close> throws a TypeError, before anything is sent, for a path with a
  character up to the space (code 32), and for a header value with a control character
  other than the tab. (Both also refuse a character beyond code 255; the strings here are
  lists of 8-bit characters and have none.)
\<close>

definition path_char :: "char \<Rightarrow> bool" where
  "path_char c = (32 < (of_char c :: nat))"

definition header_char :: "char \<Rightarrow> bool" where
  "header_char c =
     (of_char c = (9::nat) \<or> (32 \<le> (of_char c :: nat) \<and> of_char c \<noteq> (127::nat)))"

section \<open>Payload validation\<close>

definition valideTrigger :: "js \<Rightarrow> js" where
  "valideTrigger payload =
     (if \<not> truthy payload \<or> \<not> truthy (get payload ''id'')
         \<or> \<not> truthy (get payload ''name'')
         \<or> \<not> truthy (get payload ''resource'')
         \<or> \<not> truthy (get payload ''event'')
      then Undefined
      else payload)"

definition validateMessage :: "js \<Rightarrow> js" where
  "validateMessage payload =
     (if \<not> truthy payload \<or> \<not> truthy (get payload ''id'')
         \<or> \<not> truthy (get payload ''personId'')
         \<or> \<not> truthy (get payload ''personEmail'')
         \<or> \<not> truthy (get payload ''roomId'')
         \<or> \<not> truthy (get payload ''created'')
      then Undefined
      else if \<not> truthy (get payload ''text'') \<and> \<not> truthy (get payload ''files'')
      then Undefined
      else payload)"

section \<open>Effects\<close>

text \<open>
  What a handler does is the list of its effects, in the order of the source. Logging to
  the console is left out. A string built with \<open>+\<close> is the list of its parts, left to
  right: a literal, or a value that JavaScript converts to a string.
\<close>

datatype part = Lit string | ToStr js

type_synonym strcat = "part list"

datatype error = SyntaxError | ReferenceError string | TypeError

text \<open>
  The JSON bodies that the handlers send: \<open>{message: m}\<close>, \<open>{message: m, details: d}\<close>,
  and the body of the health route (since, integrationURI, webhookURI; its message and
  its list of processable events are constants).
\<close>

datatype body =
    Message strcat
  | MessageDetails strcat strcat
  | Health int js js

type_synonym callback = nat

text \<open>
  \<open>Respond s b\<close> is \<open>res.status(s).json(b)\<close> on the response of the inbound request;
  \<open>HttpsGet host path auth\<close> is the outbound \<open>https.request\<close> with method GET and the
  authorization header \<open>auth\<close>; \<open>Invoke f m\<close> is the call of the registered function \<open>f\<close>
  with \<open>m\<close>; \<open>Throw e\<close> is an exception that leaves the handler.
\<close>

datatype event =
    Respond nat body
  | HttpsGet string strcat strcat
  | Invoke callback js
  | Throw error

text \<open>
  How the outbound call ends: the \<open>end\<close> event of a response, with its status code and
  the result of \<open>JSON.parse\<close> on its body (\<open>Inl SyntaxError\<close> when the body is not JSON),
  or the \<open>error\<close> event of the request.
\<close>

datatype outcome =
    Answer nat "error + js"
  | Failure

section \<open>The webhook\<close>

datatype verb = GET | POST | OTHER

datatype endpoint = HealthGet | WebhookGet | WebhookPost | IntegrationGet | IntegrationPost

record webhook =
  started :: int
  config :: js
  handler :: "callback option"
  routes :: "(verb \<times> js \<times> endpoint) list"
  port :: js

definition execute :: "webhook \<Rightarrow> js \<Rightarrow> event list" where
  "execute self message =
     (case handler self of Some f \<Rightarrow> [Invoke f message] | None \<Rightarrow> [])"

text \<open>The listener of the \<open>end\<close> event of the outbound response.\<close>

definition on_end :: "webhook \<Rightarrow> js \<Rightarrow> nat \<Rightarrow> error + js \<Rightarrow> event list" where
  "on_end self messageId statusCode parsed =
     (case parsed of
        Inl e \<Rightarrow> [Throw e]
      | Inr payload \<Rightarrow>
          if statusCode \<noteq> 200
          then [Respond 500 (Message
                  [Lit ''bad response when retreiving the text of the message with id:'',
                   ToStr messageId])]
          else let message = validateMessage payload in
            if \<not> truthy message
            then [Respond 200 (Message
                    [Lit ''no content to process for new message with id:'',
                     ToStr messageId])]
            else Respond 200 (Message [Lit ''message is being processed by webhook''])
                 # execute self message)"

text \<open>The listener of the \<open>error\<close> event of the outbound request.\<close>

definition on_error :: "js \<Rightarrow> event list" where
  "on_error messageId =
     [Respond 500 (Message
        [Lit ''could not retreive the text of the message with id:'', ToStr messageId])]"

text \<open>
  Building the options converts the message id and the token to strings, and
  \<open>https.request\<close> tests the path and the header: each can throw before the request exists,
  and then the handler is left with nothing sent. The listeners convert the same message
  id again, which cannot throw once it has been converted.
\<close>

definition triggerMessageCreatedEvent :: "webhook \<Rightarrow> js \<Rightarrow> outcome \<Rightarrow> event list" where
  "triggerMessageCreatedEvent self triggerData oc =
     (if \<not> truthy (get triggerData ''id'')
      then [Respond 500 (Message
              [Lit ''could not retreive the message contents, no message id there !''])]
      else let messageId = get triggerData ''id'';
               token = get (config self) ''token'' in
        if \<not> convertible messageId \<or> \<not> convertible token
        then [Throw TypeError]
        else if \<not> all_chars path_char messageId \<or> \<not> all_chars header_char token
        then [Throw TypeError]
        else
          HttpsGet ''api.ciscospark.com''
            [Lit ''/v1/messages/'', ToStr messageId]
            [Lit ''Bearer '', ToStr token]
          # (case oc of
               Answer statusCode parsed \<Rightarrow> on_end self messageId statusCode parsed
             | Failure \<Rightarrow> on_error messageId))"

definition health_get :: "webhook \<Rightarrow> event list" where
  "health_get self =
     [Respond 200 (Health (started self)
        (js_or (get (config self) ''integrationURI'') Null)
        (js_or (get (config self) ''webhookURI'') Null))]"

definition webhook_get :: "event list" where
  "webhook_get = [Respond 400 (Message [Lit ''This REST webhook is expecting an HTTP POST''])]"

text \<open>
  In the branch of another resource than "messages" the message is built from the
  resource and the event, whose conversion to a string can throw.
\<close>

definition webhook_post :: "webhook \<Rightarrow> js \<Rightarrow> outcome \<Rightarrow> event list" where
  "webhook_post self reqBody oc =
     (if \<not> truthy reqBody \<or> \<not> truthy (get reqBody ''data'')
         \<or> \<not> truthy (get reqBody ''resource'') \<or> \<not> truthy (get reqBody ''event'')
      then [Respond 400 (MessageDetails
              [Lit ''Wrong payload, a data+resource+event payload is expected for REST webhooks'']
              [Lit ''either the bot is misconfigured or Cisco Spark is running a new API version''])]
      else let resource = get reqBody ''resource'';
               event = get reqBody ''event'';
               data = get reqBody ''data'' in
        if resource = Str ''messages''
        then (if event = Str ''created''
              then triggerMessageCreatedEvent self data oc
              else [Respond 500 (Message
                      [Lit ''This webhook does not support this resource/event type: messages/deleted''])])
        else if \<not> convertible resource \<or> \<not> convertible event
        then [Throw TypeError]
        else [Respond 500 (Message
                [Lit ''This webhook does not support this resource/event type: '',
                 ToStr resource, Lit ''/'', ToStr event])])"

definition integration_get :: "event list" where
  "integration_get =
     [Respond 400 (Message [Lit ''This outgoing integration is expecting an HTTP POST''])]"

text \<open>
  In the branch of a payload that is not a message the source names \<open>originalResponse\<close>,
  which is a parameter of \<open>triggerMessageCreatedEvent\<close> and not in scope here: evaluating it
  throws a ReferenceError before anything is sent.
\<close>

definition integration_post :: "webhook \<Rightarrow> js \<Rightarrow> event list" where
  "integration_post self reqBody =
     (let message = validateMessage reqBody in
      if \<not> truthy message
      then [Throw (ReferenceError ''originalResponse'')]
      else Respond 200 (Message [Lit ''message processed by integration''])
           # execute self message)"

text \<open>
  The constructor. \<open>now\<close> is \<open>Date.now()\<close> and \<open>envPort\<close> is \<open>process.env.PORT\<close>. The
  routes are listed in the order in which the source registers them.
\<close>

definition Webhook :: "js \<Rightarrow> int \<Rightarrow> js \<Rightarrow> webhook" where
  "Webhook config0 now envPort =
     (let cfg = (if \<not> truthy config0
                 then Obj [(''integrationURI'', Str ''/integration'')]
                 else config0);
          health = js_or (get cfg ''healthURI'') (Str ''/ping'')
      in \<lparr> started = now,
           config = cfg,
           handler = None,
           routes =
             [(GET, health, HealthGet)]
             @ (if truthy (get cfg ''webhookURI'')
                then [(GET, get cfg ''webhookURI'', WebhookGet),
                      (POST, get cfg ''webhookURI'', WebhookPost)]
                else [])
             @ (if truthy (get cfg ''integrationURI'')
                then [(GET, get cfg ''integrationURI'', IntegrationGet),
                      (POST, get cfg ''integrationURI'', IntegrationPost)]
                else []),
           port = js_or (js_or (get cfg ''port'') envPort) (Num 8080) \<rparr>)"

definition register :: "callback \<Rightarrow> webhook \<Rightarrow> webhook" where
  "register registered self = self\<lparr>handler := Some registered\<rparr>"

section \<open>Requests\<close>

text \<open>
  Express gives a request to the first registered route of its method whose path matches;
  no handler of bot.js passes the request on. Matching a request path against a registered
  path is Express's own and is a parameter \<open>matches\<close> here. A request that no route takes
  is answered by Express and causes no effect of this program.
\<close>

fun run :: "endpoint \<Rightarrow> webhook \<Rightarrow> js \<Rightarrow> outcome \<Rightarrow> event list" where
  "run HealthGet self reqBody oc = health_get self"
| "run WebhookGet self reqBody oc = webhook_get"
| "run WebhookPost self reqBody oc = webhook_post self reqBody oc"
| "run IntegrationGet self reqBody oc = integration_get"
| "run IntegrationPost self reqBody oc = integration_post self reqBody"

definition dispatch ::
  "(js \<Rightarrow> string \<Rightarrow> bool) \<Rightarrow> webhook \<Rightarrow> verb \<Rightarrow> string \<Rightarrow> js \<Rightarrow> outcome \<Rightarrow> event list" where
  "dispatch matches self method path reqBody oc =
     (case find (\<lambda>(m, p, h). m = method \<and> matches p path) (routes self) of
        None \<Rightarrow> []
      | Some (m, p, h) \<Rightarrow> run h self reqBody oc)"

text \<open>The comparison of paths that the examples use: the registered path is that string.\<close>

definition same_path :: "js \<Rightarrow> string \<Rightarrow> bool" where
  "same_path p u = (p = Str u)"


section \<open>Facts about the model\<close>

lemma truthy_get: "truthy (get v k) \<Longrightarrow> truthy v"
  by (cases v) simp_all

lemma validateMessage_passed:
  "validateMessage p \<noteq> Undefined \<Longrightarrow> validateMessage p = p \<and> truthy p"
  by (simp add: validateMessage_def split: if_splits)

lemma validateMessage_truthy:
  "truthy (validateMessage p) \<longleftrightarrow> validateMessage p \<noteq> Undefined"
  by (auto simp: validateMessage_def)

lemma config_Webhook: "truthy cfg \<Longrightarrow> config (Webhook cfg now envPort) = cfg"
  by (simp add: Webhook_def Let_def)

lemma find_webhook_post:
  assumes "truthy (get cfg ''webhookURI'')" and "matches (get cfg ''webhookURI'') path"
  shows "find (\<lambda>(m, p, h). m = POST \<and> matches p path) (routes (Webhook cfg now envPort))
         = Some (POST, get cfg ''webhookURI'', WebhookPost)"
proof -
  from assms(1) have "truthy cfg" by (rule truthy_get)
  with assms show ?thesis by (simp add: Webhook_def Let_def)
qed

lemma dispatch_webhook_post:
  assumes "truthy (get cfg ''webhookURI'')" and "matches (get cfg ''webhookURI'') path"
    and "routes self = routes (Webhook cfg now envPort)"
  shows "dispatch matches self POST path reqBody oc = webhook_post self reqBody oc"
proof -
  have "find (\<lambda>(m, p, h). m = POST \<and> matches p path) (routes (Webhook cfg now envPort))
        = Some (POST, get cfg ''webhookURI'', WebhookPost)"
    using assms(1,2) by (rule find_webhook_post)
  then show ?thesis unfolding dispatch_def assms(3) by simp
qed

lemma webhook_post_created:
  assumes "get reqBody ''resource'' = Str ''messages''"
    and "get reqBody ''event'' = Str ''created''"
    and "truthy (get reqBody ''data'')"
  shows "webhook_post self reqBody oc
         = triggerMessageCreatedEvent self (get reqBody ''data'') oc"
proof -
  from assms(3) have "truthy reqBody" by (rule truthy_get)
  with assms show ?thesis by (simp add: webhook_post_def Let_def)
qed

lemma run_invokes_validated:
  "Invoke f m \<in> set (run h self reqBody oc) \<Longrightarrow> validateMessage m = m \<and> m \<noteq> Undefined"
proof (cases h)
  case HealthGet
  assume "Invoke f m \<in> set (run h self reqBody oc)"
  with HealthGet show ?thesis by (simp add: health_get_def)
next
  case WebhookGet
  assume "Invoke f m \<in> set (run h self reqBody oc)"
  with WebhookGet show ?thesis by (simp add: webhook_get_def)
next
  case WebhookPost
  assume "Invoke f m \<in> set (run h self reqBody oc)"
  with WebhookPost show ?thesis
    by (auto simp: webhook_post_def triggerMessageCreatedEvent_def on_end_def on_error_def
          execute_def Let_def validateMessage_truthy
          split: if_splits outcome.splits sum.splits option.splits
          dest: validateMessage_passed)
next
  case IntegrationGet
  assume "Invoke f m \<in> set (run h self reqBody oc)"
  with IntegrationGet show ?thesis by (simp add: integration_get_def)
next
  case IntegrationPost
  assume "Invoke f m \<in> set (run h self reqBody oc)"
  with IntegrationPost show ?thesis
    by (auto simp: integration_post_def execute_def Let_def validateMessage_truthy
          split: if_splits option.splits dest: validateMessage_passed)
qed


section \<open>The REST webhook route\<close>

text \<open>
  When the message id and the token convert to strings that \<open>https.request\<close> accepts, the
  outbound request is made, and the rest is up to how it ends.
\<close>

lemma created_request_made:
  assumes "truthy (get triggerData ''id'')"
    and "convertible (get triggerData ''id'')"
    and "all_chars path_char (get triggerData ''id'')"
    and "convertible (get (config self) ''token'')"
    and "all_chars header_char (get (config self) ''token'')"
  shows "triggerMessageCreatedEvent self triggerData oc
         = HttpsGet ''api.ciscospark.com''
             [Lit ''/v1/messages/'', ToStr (get triggerData ''id'')]
             [Lit ''Bearer '', ToStr (get (config self) ''token'')]
           # (case oc of
                Answer statusCode parsed \<Rightarrow>
                  on_end self (get triggerData ''id'') statusCode parsed
              | Failure \<Rightarrow> on_error (get triggerData ''id''))"
  using assms by (simp add: triggerMessageCreatedEvent_def Let_def)

text \<open>Of the nested data the handler reads the id and nothing else.\<close>

lemma created_reads_only_id:
  assumes "get triggerData' ''id'' = get triggerData ''id''"
  shows "triggerMessageCreatedEvent self triggerData' oc
         = triggerMessageCreatedEvent self triggerData oc"
  using assms by (simp add: triggerMessageCreatedEvent_def)

text \<open>
  Claim C1. A POST to webhookURI with resource "messages", event "created" and a data.id,
  for which the outbound call is made (the id and the token convert to strings that
  \<open>https.request\<close> accepts as path and header) and ends with status 200 and a body that
  passes validateMessage, makes exactly these effects, in this order: the outbound GET,
  the response 200 to the caller, and one call of the registered function with the
  message.
\<close>

theorem webhook_created_valid_message:
  assumes "truthy (get cfg ''webhookURI'')"
    and "matches (get cfg ''webhookURI'') path"
    and "get reqBody ''resource'' = Str ''messages''"
    and "get reqBody ''event'' = Str ''created''"
    and "truthy (get (get reqBody ''data'') ''id'')"
    and "convertible (get (get reqBody ''data'') ''id'')"
    and "all_chars path_char (get (get reqBody ''data'') ''id'')"
    and "convertible (get cfg ''token'')"
    and "all_chars header_char (get cfg ''token'')"
    and "validateMessage payload \<noteq> Undefined"
  shows "dispatch matches (register f (Webhook cfg now envPort)) POST path reqBody
           (Answer 200 (Inr payload))
         = [HttpsGet ''api.ciscospark.com''
              [Lit ''/v1/messages/'', ToStr (get (get reqBody ''data'') ''id'')]
              [Lit ''Bearer '', ToStr (get cfg ''token'')],
            Respond 200 (Message [Lit ''message is being processed by webhook'']),
            Invoke f payload]"
proof -
  let ?self = "register f (Webhook cfg now envPort)"
  let ?oc = "Answer 200 (Inr payload)"
  from assms(1) have "truthy cfg" by (rule truthy_get)
  then have c: "config ?self = cfg" by (simp add: register_def config_Webhook)
  from assms(5) have d: "truthy (get reqBody ''data'')" by (rule truthy_get)
  have r: "routes ?self = routes (Webhook cfg now envPort)" by (simp add: register_def)
  have "dispatch matches ?self POST path reqBody ?oc = webhook_post ?self reqBody ?oc"
    using assms(1,2) r by (rule dispatch_webhook_post)
  also have "\<dots> = triggerMessageCreatedEvent ?self (get reqBody ''data'') ?oc"
    using assms(3,4) d by (rule webhook_post_created)
  also have "\<dots> = HttpsGet ''api.ciscospark.com''
              [Lit ''/v1/messages/'', ToStr (get (get reqBody ''data'') ''id'')]
              [Lit ''Bearer '', ToStr (get cfg ''token'')]
            # on_end ?self (get (get reqBody ''data'') ''id'') 200 (Inr payload)"
    using assms(5-9) by (simp add: created_request_made c)
  also have "on_end ?self (get (get reqBody ''data'') ''id'') 200 (Inr payload)
             = [Respond 200 (Message [Lit ''message is being processed by webhook'']),
                Invoke f payload]"
    using validateMessage_passed [OF assms(10)]
    by (simp add: on_end_def execute_def register_def Let_def)
  finally show ?thesis .
qed

theorem webhook_created_valid_message_witness:
  "dispatch same_path
     (register 7 (Webhook (Obj [(''webhookURI'', Str ''/webhook''), (''token'', Str ''T0K'')])
        0 Undefined))
     POST ''/webhook''
     (Obj [(''resource'', Str ''messages''), (''event'', Str ''created''),
           (''data'', Obj [(''id'', Str ''m1'')])])
     (Answer 200 (Inr (Obj [(''id'', Str ''m1''), (''personId'', Str ''p1''),
        (''personEmail'', Str ''matt@example.com''), (''roomId'', Str ''r1''),
        (''text'', Str ''hello''), (''created'', Str ''2015-10-18T14:26:16+00:00'')])))
   = [HttpsGet ''api.ciscospark.com'' [Lit ''/v1/messages/'', ToStr (Str ''m1'')]
        [Lit ''Bearer '', ToStr (Str ''T0K'')],
      Respond 200 (Message [Lit ''message is being processed by webhook'']),
      Invoke 7 (Obj [(''id'', Str ''m1''), (''personId'', Str ''p1''),
        (''personEmail'', Str ''matt@example.com''), (''roomId'', Str ''r1''),
        (''text'', Str ''hello''), (''created'', Str ''2015-10-18T14:26:16+00:00'')])]"
  using webhook_created_valid_message
    [where cfg = "Obj [(''webhookURI'', Str ''/webhook''), (''token'', Str ''T0K'')]"
       and matches = same_path and path = "''/webhook''"
       and reqBody = "Obj [(''resource'', Str ''messages''), (''event'', Str ''created''),
              (''data'', Obj [(''id'', Str ''m1'')])]"
       and payload = "Obj [(''id'', Str ''m1''), (''personId'', Str ''p1''),
              (''personEmail'', Str ''matt@example.com''), (''roomId'', Str ''r1''),
              (''text'', Str ''hello''), (''created'', Str ''2015-10-18T14:26:16+00:00'')]"
       and f = 7 and now = 0 and envPort = Undefined]
  by (simp add: same_path_def validateMessage_def path_char_def header_char_def)

text \<open>
  Claim C7. A POST to webhookURI dispatched as ("messages", "created") with a data.id, for
  which the outbound call is made (the id and the token convert to strings that
  \<open>https.request\<close> accepts) and ends with status 200 and a parsed body that validateMessage
  rejects, is answered with status 200, and the registered function is not called: the
  effects are the outbound GET and that response, whether or not a function is registered.
\<close>

theorem webhook_created_invalid_message:
  assumes "truthy (get cfg ''webhookURI'')"
    and "matches (get cfg ''webhookURI'') path"
    and "get reqBody ''resource'' = Str ''messages''"
    and "get reqBody ''event'' = Str ''created''"
    and "truthy (get (get reqBody ''data'') ''id'')"
    and "convertible (get (get reqBody ''data'') ''id'')"
    and "all_chars path_char (get (get reqBody ''data'') ''id'')"
    and "convertible (get cfg ''token'')"
    and "all_chars header_char (get cfg ''token'')"
    and "validateMessage payload = Undefined"
  shows "dispatch matches ((Webhook cfg now envPort)\<lparr>handler := h\<rparr>) POST path reqBody
           (Answer 200 (Inr payload))
         = [HttpsGet ''api.ciscospark.com''
              [Lit ''/v1/messages/'', ToStr (get (get reqBody ''data'') ''id'')]
              [Lit ''Bearer '', ToStr (get cfg ''token'')],
            Respond 200 (Message
              [Lit ''no content to process for new message with id:'',
               ToStr (get (get reqBody ''data'') ''id'')])]"
proof -
  let ?self = "(Webhook cfg now envPort)\<lparr>handler := h\<rparr>"
  let ?oc = "Answer 200 (Inr payload)"
  from assms(1) have "truthy cfg" by (rule truthy_get)
  then have c: "config ?self = cfg" by (simp add: config_Webhook)
  from assms(5) have d: "truthy (get reqBody ''data'')" by (rule truthy_get)
  have r: "routes ?self = routes (Webhook cfg now envPort)" by simp
  have "dispatch matches ?self POST path reqBody ?oc = webhook_post ?self reqBody ?oc"
    using assms(1,2) r by (rule dispatch_webhook_post)
  also have "\<dots> = triggerMessageCreatedEvent ?self (get reqBody ''data'') ?oc"
    using assms(3,4) d by (rule webhook_post_created)
  also have "\<dots> = HttpsGet ''api.ciscospark.com''
              [Lit ''/v1/messages/'', ToStr (get (get reqBody ''data'') ''id'')]
              [Lit ''Bearer '', ToStr (get cfg ''token'')]
            # on_end ?self (get (get reqBody ''data'') ''id'') 200 (Inr payload)"
    using assms(5-9) by (simp add: created_request_made c)
  also have "on_end ?self (get (get reqBody ''data'') ''id'') 200 (Inr payload)
             = [Respond 200 (Message
                  [Lit ''no content to process for new message with id:'',
                   ToStr (get (get reqBody ''data'') ''id'')])]"
    using assms(10) by (simp add: on_end_def Let_def)
  finally show ?thesis .
qed

theorem webhook_created_invalid_message_witness:
  "dispatch same_path
     ((Webhook (Obj [(''webhookURI'', Str ''/webhook''), (''token'', Str ''T0K'')])
        0 Undefined)\<lparr>handler := Some 7\<rparr>)
     POST ''/webhook''
     (Obj [(''resource'', Str ''messages''), (''event'', Str ''created''),
           (''data'', Obj [(''id'', Str ''m1'')])])
     (Answer 200 (Inr (Obj [(''id'', Str ''m1''), (''personId'', Str ''p1'')])))
   = [HttpsGet ''api.ciscospark.com'' [Lit ''/v1/messages/'', ToStr (Str ''m1'')]
        [Lit ''Bearer '', ToStr (Str ''T0K'')],
      Respond 200 (Message
        [Lit ''no content to process for new message with id:'', ToStr (Str ''m1'')])]"
  using webhook_created_invalid_message
    [where cfg = "Obj [(''webhookURI'', Str ''/webhook''), (''token'', Str ''T0K'')]"
       and matches = same_path and path = "''/webhook''"
       and reqBody = "Obj [(''resource'', Str ''messages''), (''event'', Str ''created''),
              (''data'', Obj [(''id'', Str ''m1'')])]"
       and payload = "Obj [(''id'', Str ''m1''), (''personId'', Str ''p1'')]"
       and now = 0 and envPort = Undefined and h = "Some 7"]
  by (simp add: same_path_def validateMessage_def path_char_def header_char_def)

text \<open>
  Claim C8. A POST to webhookURI whose data, resource and event are truthy, with a pair
  (resource, event) other than ("messages", "created"), and whose resource is "messages"
  or whose resource and event convert to strings, is answered with status 500 and a
  message that the resource/event type is not supported; that response is the only effect,
  so the registered function is not called.
\<close>

theorem webhook_unsupported_resource_event:
  assumes "truthy (get cfg ''webhookURI'')"
    and "matches (get cfg ''webhookURI'') path"
    and "truthy (get reqBody ''data'')"
    and "truthy (get reqBody ''resource'')"
    and "truthy (get reqBody ''event'')"
    and "\<not> (get reqBody ''resource'' = Str ''messages'' \<and> get reqBody ''event'' = Str ''created'')"
    and "get reqBody ''resource'' = Str ''messages''
         \<or> (convertible (get reqBody ''resource'') \<and> convertible (get reqBody ''event''))"
  shows "dispatch matches ((Webhook cfg now envPort)\<lparr>handler := h\<rparr>) POST path reqBody oc
         = [Respond 500 (Message
              (if get reqBody ''resource'' = Str ''messages''
               then [Lit ''This webhook does not support this resource/event type: messages/deleted'']
               else [Lit ''This webhook does not support this resource/event type: '',
                     ToStr (get reqBody ''resource''), Lit ''/'',
                     ToStr (get reqBody ''event'')]))]"
proof -
  let ?self = "(Webhook cfg now envPort)\<lparr>handler := h\<rparr>"
  from assms(3) have b: "truthy reqBody" by (rule truthy_get)
  have r: "routes ?self = routes (Webhook cfg now envPort)" by simp
  have "dispatch matches ?self POST path reqBody oc = webhook_post ?self reqBody oc"
    using assms(1,2) r by (rule dispatch_webhook_post)
  also have "\<dots> = [Respond 500 (Message
              (if get reqBody ''resource'' = Str ''messages''
               then [Lit ''This webhook does not support this resource/event type: messages/deleted'']
               else [Lit ''This webhook does not support this resource/event type: '',
                     ToStr (get reqBody ''resource''), Lit ''/'',
                     ToStr (get reqBody ''event'')]))]"
  proof (cases "get reqBody ''resource'' = Str ''messages''")
    case True
    with assms(3-6) b show ?thesis by (simp add: webhook_post_def Let_def)
  next
    case False
    with assms(7) have "convertible (get reqBody ''resource'')"
      and "convertible (get reqBody ''event'')" by simp_all
    with False assms(3-5) b show ?thesis by (simp add: webhook_post_def Let_def)
  qed
  finally show ?thesis .
qed

theorem webhook_unsupported_resource_event_witness:
  "dispatch same_path
     ((Webhook (Obj [(''webhookURI'', Str ''/webhook'')]) 0 Undefined)\<lparr>handler := Some 7\<rparr>)
     POST ''/webhook''
     (Obj [(''resource'', Str ''messages''), (''event'', Str ''deleted''),
           (''data'', Obj [(''id'', Str ''m1'')])])
     Failure
   = [Respond 500 (Message
        [Lit ''This webhook does not support this resource/event type: messages/deleted''])]
   \<and> dispatch same_path
     ((Webhook (Obj [(''webhookURI'', Str ''/webhook'')]) 0 Undefined)\<lparr>handler := Some 7\<rparr>)
     POST ''/webhook''
     (Obj [(''resource'', Str ''rooms''), (''event'', Str ''created''),
           (''data'', Obj [(''id'', Str ''r1'')])])
     Failure
   = [Respond 500 (Message
        [Lit ''This webhook does not support this resource/event type: '',
         ToStr (Str ''rooms''), Lit ''/'', ToStr (Str ''created'')])]"
  using webhook_unsupported_resource_event
    [where cfg = "Obj [(''webhookURI'', Str ''/webhook'')]"
       and matches = same_path and path = "''/webhook''"
       and reqBody = "Obj [(''resource'', Str ''messages''), (''event'', Str ''deleted''),
              (''data'', Obj [(''id'', Str ''m1'')])]"
       and now = 0 and envPort = Undefined and h = "Some 7" and oc = Failure]
    webhook_unsupported_resource_event
    [where cfg = "Obj [(''webhookURI'', Str ''/webhook'')]"
       and matches = same_path and path = "''/webhook''"
       and reqBody = "Obj [(''resource'', Str ''rooms''), (''event'', Str ''created''),
              (''data'', Obj [(''id'', Str ''r1'')])]"
       and now = 0 and envPort = Undefined and h = "Some 7" and oc = Failure]
  by (simp add: same_path_def)

text \<open>
  Against claim C8 as stated. The first body contains data, resource and event, with the
  pair ("messages", "deleted"), but its data is the empty string: the envelope test
  rejects it and the answer is 400, not 500. In the second body the resource is an object
  with an own property \<open>toString\<close>: building the message throws a TypeError and nothing is
  answered.
\<close>

theorem webhook_unsupported_counterexample:
  "get (Obj [(''resource'', Str ''messages''), (''event'', Str ''deleted''),
             (''data'', Str '''')]) ''data''
   = Str ''''
   \<and> dispatch same_path
     ((Webhook (Obj [(''webhookURI'', Str ''/webhook'')]) 0 Undefined)\<lparr>handler := Some 7\<rparr>)
     POST ''/webhook''
     (Obj [(''resource'', Str ''messages''), (''event'', Str ''deleted''),
           (''data'', Str '''')])
     Failure
   = [Respond 400 (MessageDetails
        [Lit ''Wrong payload, a data+resource+event payload is expected for REST webhooks'']
        [Lit ''either the bot is misconfigured or Cisco Spark is running a new API version''])]
   \<and> dispatch same_path
     ((Webhook (Obj [(''webhookURI'', Str ''/webhook'')]) 0 Undefined)\<lparr>handler := Some 7\<rparr>)
     POST ''/webhook''
     (Obj [(''resource'', Obj [(''toString'', Num 1)]), (''event'', Str ''created''),
           (''data'', Obj [(''id'', Str ''m1'')])])
     Failure
   = [Throw TypeError]"
  by (simp add: dispatch_def Webhook_def same_path_def js_or_def webhook_post_def Let_def)

text \<open>
  The request of claim C1 when the outbound call ends with another status than 200 and a
  body that is JSON: the caller gets status 500 and the registered function is not called.
\<close>

lemma webhook_created_bad_status_parsed:
  assumes "truthy (get cfg ''webhookURI'')"
    and "matches (get cfg ''webhookURI'') path"
    and "get reqBody ''resource'' = Str ''messages''"
    and "get reqBody ''event'' = Str ''created''"
    and "truthy (get (get reqBody ''data'') ''id'')"
    and "convertible (get (get reqBody ''data'') ''id'')"
    and "all_chars path_char (get (get reqBody ''data'') ''id'')"
    and "convertible (get cfg ''token'')"
    and "all_chars header_char (get cfg ''token'')"
    and "statusCode \<noteq> 200"
  shows "dispatch matches ((Webhook cfg now envPort)\<lparr>handler := h\<rparr>) POST path reqBody
           (Answer statusCode (Inr payload))
         = [HttpsGet ''api.ciscospark.com''
              [Lit ''/v1/messages/'', ToStr (get (get reqBody ''data'') ''id'')]
              [Lit ''Bearer '', ToStr (get cfg ''token'')],
            Respond 500 (Message
              [Lit ''bad response when retreiving the text of the message with id:'',
               ToStr (get (get reqBody ''data'') ''id'')])]"
proof -
  let ?self = "(Webhook cfg now envPort)\<lparr>handler := h\<rparr>"
  let ?oc = "Answer statusCode (Inr payload)"
  from assms(1) have "truthy cfg" by (rule truthy_get)
  then have c: "config ?self = cfg" by (simp add: config_Webhook)
  from assms(5) have d: "truthy (get reqBody ''data'')" by (rule truthy_get)
  have r: "routes ?self = routes (Webhook cfg now envPort)" by simp
  have "dispatch matches ?self POST path reqBody ?oc = webhook_post ?self reqBody ?oc"
    using assms(1,2) r by (rule dispatch_webhook_post)
  also have "\<dots> = triggerMessageCreatedEvent ?self (get reqBody ''data'') ?oc"
    using assms(3,4) d by (rule webhook_post_created)
  also have "\<dots> = HttpsGet ''api.ciscospark.com''
              [Lit ''/v1/messages/'', ToStr (get (get reqBody ''data'') ''id'')]
              [Lit ''Bearer '', ToStr (get cfg ''token'')]
            # on_end ?self (get (get reqBody ''data'') ''id'') statusCode (Inr payload)"
    using assms(5-9) by (simp add: created_request_made c)
  also have "on_end ?self (get (get reqBody ''data'') ''id'') statusCode (Inr payload)
             = [Respond 500 (Message
                  [Lit ''bad response when retreiving the text of the message with id:'',
                   ToStr (get (get reqBody ''data'') ''id'')])]"
    using assms(10) by (simp add: on_end_def)
  finally show ?thesis .
qed

text \<open>
  Claim C6. The end listener parses the body before it looks at the status code. When the
  outbound call ends with status 404 and a body that is not JSON (an empty body, an HTML
  error page), \<open>JSON.parse\<close> throws and the listener is left before the test of the status:
  the caller is sent no response at all, where the claim has a response 500.
\<close>

theorem webhook_created_bad_status_unparsable:
  "dispatch same_path
     (register 7 (Webhook (Obj [(''webhookURI'', Str ''/webhook''), (''token'', Str ''T0K'')])
        0 Undefined))
     POST ''/webhook''
     (Obj [(''resource'', Str ''messages''), (''event'', Str ''created''),
           (''data'', Obj [(''id'', Str ''m1'')])])
     (Answer 404 (Inl SyntaxError))
   = [HttpsGet ''api.ciscospark.com'' [Lit ''/v1/messages/'', ToStr (Str ''m1'')]
        [Lit ''Bearer '', ToStr (Str ''T0K'')],
      Throw SyntaxError]"
  by (simp add: dispatch_def Webhook_def register_def same_path_def js_or_def webhook_post_def
        triggerMessageCreatedEvent_def on_end_def Let_def path_char_def header_char_def)

text \<open>
  Claim C4. The handler of ("messages", "created") does not validate the nested data as a
  Trigger: of data it reads data.id and nothing else, so two such requests whose data have
  the same id are handled alike, whatever name, resource and event their data have. When
  data.id is absent (or falsy) the caller gets status 500 and that response is the only
  effect: no outbound call is made.
\<close>

theorem webhook_created_tests_only_data_id:
  assumes "truthy (get cfg ''webhookURI'')"
    and "matches (get cfg ''webhookURI'') path"
    and "get reqBody ''resource'' = Str ''messages''"
    and "get reqBody ''event'' = Str ''created''"
    and "truthy (get reqBody ''data'')"
    and "get reqBody' ''resource'' = Str ''messages''"
    and "get reqBody' ''event'' = Str ''created''"
    and "truthy (get reqBody' ''data'')"
    and "get (get reqBody' ''data'') ''id'' = get (get reqBody ''data'') ''id''"
  shows "dispatch matches ((Webhook cfg now envPort)\<lparr>handler := h\<rparr>) POST path reqBody' oc
         = dispatch matches ((Webhook cfg now envPort)\<lparr>handler := h\<rparr>) POST path reqBody oc
         \<and> (\<not> truthy (get (get reqBody ''data'') ''id'') \<longrightarrow>
            dispatch matches ((Webhook cfg now envPort)\<lparr>handler := h\<rparr>) POST path reqBody oc
            = [Respond 500 (Message
                 [Lit ''could not retreive the message contents, no message id there !''])])"
proof -
  let ?self = "(Webhook cfg now envPort)\<lparr>handler := h\<rparr>"
  have r: "routes ?self = routes (Webhook cfg now envPort)" by simp
  have "dispatch matches ?self POST path reqBody oc = webhook_post ?self reqBody oc"
    using assms(1,2) r by (rule dispatch_webhook_post)
  also have "\<dots> = triggerMessageCreatedEvent ?self (get reqBody ''data'') oc"
    using assms(3,4,5) by (rule webhook_post_created)
  finally have a: "dispatch matches ?self POST path reqBody oc
                   = triggerMessageCreatedEvent ?self (get reqBody ''data'') oc" .
  have "dispatch matches ?self POST path reqBody' oc = webhook_post ?self reqBody' oc"
    using assms(1,2) r by (rule dispatch_webhook_post)
  also have "\<dots> = triggerMessageCreatedEvent ?self (get reqBody' ''data'') oc"
    using assms(6,7,8) by (rule webhook_post_created)
  also have "\<dots> = triggerMessageCreatedEvent ?self (get reqBody ''data'') oc"
    using assms(9) by (rule created_reads_only_id)
  finally have b: "dispatch matches ?self POST path reqBody' oc
                   = triggerMessageCreatedEvent ?self (get reqBody ''data'') oc" .
  have "\<not> truthy (get (get reqBody ''data'') ''id'') \<longrightarrow>
        triggerMessageCreatedEvent ?self (get reqBody ''data'') oc
        = [Respond 500 (Message
             [Lit ''could not retreive the message contents, no message id there !''])]"
    by (simp add: triggerMessageCreatedEvent_def)
  with a b show ?thesis by simp
qed

theorem webhook_created_tests_only_data_id_witness:
  "dispatch same_path
     ((Webhook (Obj [(''webhookURI'', Str ''/webhook''), (''token'', Str ''T0K'')])
        0 Undefined)\<lparr>handler := Some 7\<rparr>)
     POST ''/webhook''
     (Obj [(''resource'', Str ''messages''), (''event'', Str ''created''),
           (''data'', Obj [(''id'', Str ''m1''), (''name'', Str ''Guild Chat''),
                           (''resource'', Str ''messages''), (''event'', Str ''created'')])])
     Failure
   = dispatch same_path
     ((Webhook (Obj [(''webhookURI'', Str ''/webhook''), (''token'', Str ''T0K'')])
        0 Undefined)\<lparr>handler := Some 7\<rparr>)
     POST ''/webhook''
     (Obj [(''resource'', Str ''messages''), (''event'', Str ''created''),
           (''data'', Obj [(''id'', Str ''m1'')])])
     Failure
   \<and> dispatch same_path
     ((Webhook (Obj [(''webhookURI'', Str ''/webhook''), (''token'', Str ''T0K'')])
        0 Undefined)\<lparr>handler := Some 7\<rparr>)
     POST ''/webhook''
     (Obj [(''resource'', Str ''messages''), (''event'', Str ''created''),
           (''data'', Obj [(''roomId'', Str ''r1'')])])
     Failure
   = [Respond 500 (Message
        [Lit ''could not retreive the message contents, no message id there !''])]"
  using webhook_created_tests_only_data_id
    [where cfg = "Obj [(''webhookURI'', Str ''/webhook''), (''token'', Str ''T0K'')]"
       and matches = same_path and path = "''/webhook''"
       and reqBody = "Obj [(''resource'', Str ''messages''), (''event'', Str ''created''),
              (''data'', Obj [(''id'', Str ''m1'')])]"
       and reqBody' = "Obj [(''resource'', Str ''messages''), (''event'', Str ''created''),
              (''data'', Obj [(''id'', Str ''m1''), (''name'', Str ''Guild Chat''),
                              (''resource'', Str ''messages''), (''event'', Str ''created'')])]"
       and now = 0 and envPort = Undefined and h = "Some 7" and oc = Failure]
    webhook_created_tests_only_data_id
    [where cfg = "Obj [(''webhookURI'', Str ''/webhook''), (''token'', Str ''T0K'')]"
       and matches = same_path and path = "''/webhook''"
       and reqBody = "Obj [(''resource'', Str ''messages''), (''event'', Str ''created''),
              (''data'', Obj [(''roomId'', Str ''r1'')])]"
       and reqBody' = "Obj [(''resource'', Str ''messages''), (''event'', Str ''created''),
              (''data'', Obj [(''roomId'', Str ''r1'')])]"
       and now = 0 and envPort = Undefined and h = "Some 7" and oc = Failure]
  by (simp add: same_path_def)

text \<open>
  Against claim C4 as stated: the data \<open>{id: "m1"}\<close> is no Trigger (valideTrigger gives
  undefined for it: name, resource and event are absent), and the outbound call is made
  all the same.
\<close>

theorem webhook_created_trigger_counterexample:
  "valideTrigger (Obj [(''id'', Str ''m1'')]) = Undefined
   \<and> dispatch same_path
     ((Webhook (Obj [(''webhookURI'', Str ''/webhook''), (''token'', Str ''T0K'')])
        0 Undefined)\<lparr>handler := Some 7\<rparr>)
     POST ''/webhook''
     (Obj [(''resource'', Str ''messages''), (''event'', Str ''created''),
           (''data'', Obj [(''id'', Str ''m1'')])])
     Failure
   = [HttpsGet ''api.ciscospark.com'' [Lit ''/v1/messages/'', ToStr (Str ''m1'')]
        [Lit ''Bearer '', ToStr (Str ''T0K'')],
      Respond 500 (Message
        [Lit ''could not retreive the text of the message with id:'', ToStr (Str ''m1'')])]"
  by (simp add: valideTrigger_def dispatch_def Webhook_def same_path_def js_or_def
        webhook_post_def triggerMessageCreatedEvent_def on_error_def Let_def
        path_char_def header_char_def)


section \<open>The outgoing integration route\<close>

text \<open>
  A POST to integrationURI with a body that is a message: the caller gets status 200, then
  the registered function is called with the body.
\<close>

lemma integration_post_valid:
  assumes "validateMessage reqBody \<noteq> Undefined"
  shows "integration_post self reqBody
         = Respond 200 (Message [Lit ''message processed by integration''])
           # execute self reqBody"
  using validateMessage_passed [OF assms]
  by (simp add: integration_post_def Let_def)

lemma integration_post_invalid:
  assumes "validateMessage reqBody = Undefined"
  shows "integration_post self reqBody = [Throw (ReferenceError ''originalResponse'')]"
  using assms by (simp add: integration_post_def Let_def)

text \<open>
  Claim C3. A POST to integrationURI with a body that lacks \<open>created\<close>: the branch that is
  to answer 200 "message format is not supported" names \<open>originalResponse\<close>, which is not
  defined in the handler, so a ReferenceError leaves the handler and the status 200 of the
  claim is never sent. The registered function is not called.
\<close>

theorem integration_post_lacking_created:
  "dispatch same_path (register 7 (Webhook Undefined 0 Undefined)) POST ''/integration''
     (Obj [(''id'', Str ''m1''), (''personId'', Str ''p1''),
           (''personEmail'', Str ''matt@example.com''), (''roomId'', Str ''r1''),
           (''text'', Str ''hello'')])
     Failure
   = [Throw (ReferenceError ''originalResponse'')]"
  by (simp add: dispatch_def Webhook_def register_def same_path_def js_or_def
        integration_post_def validateMessage_def Let_def)

section \<open>Every route\<close>

text \<open>
  Claim C2. Whatever the request (method, path, body), whatever routes are registered and
  however the outbound call ends, a call of the registered function that the dispatcher
  makes has an argument that passed validateMessage: validateMessage returns it, and it is
  not undefined.
\<close>

theorem callback_only_with_validated_message:
  assumes "Invoke f m \<in> set (dispatch matches self method path reqBody oc)"
  shows "validateMessage m = m \<and> m \<noteq> Undefined"
proof (cases "find (\<lambda>(v, p, h). v = method \<and> matches p path) (routes self)")
  case None
  with assms show ?thesis by (simp add: dispatch_def)
next
  case (Some r)
  obtain v p h where "r = (v, p, h)" by (cases r)
  with Some assms have "Invoke f m \<in> set (run h self reqBody oc)"
    by (simp add: dispatch_def)
  then show ?thesis by (rule run_invokes_validated)
qed

theorem callback_only_with_validated_message_witness:
  "Invoke 7 (Obj [(''id'', Str ''m1''), (''personId'', Str ''p1''),
        (''personEmail'', Str ''matt@example.com''), (''roomId'', Str ''r1''),
        (''files'', Arr [Str ''http://www.example.com/images/media.png'']),
        (''created'', Str ''2015-10-18T14:26:16+00:00'')])
     \<in> set (dispatch same_path (register 7 (Webhook Undefined 0 Undefined))
               POST ''/integration''
               (Obj [(''id'', Str ''m1''), (''personId'', Str ''p1''),
                  (''personEmail'', Str ''matt@example.com''), (''roomId'', Str ''r1''),
                  (''files'', Arr [Str ''http://www.example.com/images/media.png'']),
                  (''created'', Str ''2015-10-18T14:26:16+00:00'')])
               Failure)
   \<and> validateMessage (Obj [(''id'', Str ''m1''), (''personId'', Str ''p1''),
        (''personEmail'', Str ''matt@example.com''), (''roomId'', Str ''r1''),
        (''files'', Arr [Str ''http://www.example.com/images/media.png'']),
        (''created'', Str ''2015-10-18T14:26:16+00:00'')])
     = Obj [(''id'', Str ''m1''), (''personId'', Str ''p1''),
        (''personEmail'', Str ''matt@example.com''), (''roomId'', Str ''r1''),
        (''files'', Arr [Str ''http://www.example.com/images/media.png'']),
        (''created'', Str ''2015-10-18T14:26:16+00:00'')]"
proof -
  let ?m = "Obj [(''id'', Str ''m1''), (''personId'', Str ''p1''),
        (''personEmail'', Str ''matt@example.com''), (''roomId'', Str ''r1''),
        (''files'', Arr [Str ''http://www.example.com/images/media.png'']),
        (''created'', Str ''2015-10-18T14:26:16+00:00'')]"
  let ?self = "register 7 (Webhook Undefined 0 Undefined)"
  have i: "Invoke 7 ?m \<in> set (dispatch same_path ?self POST ''/integration'' ?m Failure)"
    by (simp add: dispatch_def Webhook_def register_def same_path_def js_or_def
          integration_post_def validateMessage_def execute_def Let_def)
  from callback_only_with_validated_message [OF i] i show ?thesis by simp
qed

section \<open>Registered routes\<close>

text \<open>
  Claim C5. When no configuration is given (the argument is undefined, null or another
  falsy value), the constructor takes \<open>{integrationURI: "/integration"}\<close>: it registers
  the outgoing integration route at "/integration", after the health route at "/ping",
  and no REST webhook route. When a configuration is given in which neither webhookURI
  nor integrationURI is set (absent or falsy), there is no default: the health route is
  the only route.
\<close>

theorem no_config_registers_integration:
  "(\<not> truthy cfg \<longrightarrow>
      routes (Webhook cfg now envPort)
      = [(GET, Str ''/ping'', HealthGet),
         (GET, Str ''/integration'', IntegrationGet),
         (POST, Str ''/integration'', IntegrationPost)])
   \<and> (truthy cfg \<and> \<not> truthy (get cfg ''webhookURI'')
        \<and> \<not> truthy (get cfg ''integrationURI'') \<longrightarrow>
      routes (Webhook cfg now envPort)
      = [(GET, js_or (get cfg ''healthURI'') (Str ''/ping''), HealthGet)])"
  by (simp add: Webhook_def js_or_def Let_def)

theorem no_config_registers_integration_witness:
  "routes (Webhook Undefined 0 Undefined)
     = [(GET, Str ''/ping'', HealthGet),
        (GET, Str ''/integration'', IntegrationGet),
        (POST, Str ''/integration'', IntegrationPost)]
   \<and> routes (Webhook (Obj [(''healthURI'', Str ''/health''), (''webhookURI'', Str '''')])
        0 Undefined)
     = [(GET, Str ''/health'', HealthGet)]"
  using no_config_registers_integration [where cfg = Undefined and now = 0 and envPort = Undefined]
    no_config_registers_integration
      [where cfg = "Obj [(''healthURI'', Str ''/health''), (''webhookURI'', Str '''')]"
         and now = 0 and envPort = Undefined]
  by (simp add: js_or_def)

text \<open>
  Against claim C5 as stated: a configuration object that sets a port and neither
  webhookURI nor integrationURI is kept as it is, and only the health route is registered.
\<close>

theorem neither_uri_counterexample:
  "get (Obj [(''port'', Num 8080)]) ''webhookURI'' = Undefined
   \<and> get (Obj [(''port'', Num 8080)]) ''integrationURI'' = Undefined
   \<and> routes (Webhook (Obj [(''port'', Num 8080)]) 0 Undefined)
     = [(GET, Str ''/ping'', HealthGet)]"
  by (simp add: Webhook_def js_or_def Let_def)


section \<open>Message validation\<close>

lemma validateMessage_accepts:
  assumes "truthy (get p ''id'')" and "truthy (get p ''personId'')"
    and "truthy (get p ''personEmail'')" and "truthy (get p ''roomId'')"
    and "truthy (get p ''created'')"
    and "truthy (get p ''text'') \<or> truthy (get p ''files'')"
  shows "validateMessage p = p" and "p \<noteq> Undefined"
proof -
  from assms(1) have t: "truthy p" by (rule truthy_get)
  with assms show "validateMessage p = p" by (auto simp: validateMessage_def)
  from t show "p \<noteq> Undefined" by auto
qed

text \<open>
  Claim C9. A payload in which one of id, personId, personEmail, roomId, created is
  absent, or in which text and files are both absent, is rejected: validateMessage returns
  undefined. A payload in which the five fields have truthy values (for a string: not
  empty) and text or files has a truthy value is returned as it is.
\<close>

theorem validateMessage_required_fields:
  "(get p ''id'' = Undefined \<or> get p ''personId'' = Undefined
      \<or> get p ''personEmail'' = Undefined \<or> get p ''roomId'' = Undefined
      \<or> get p ''created'' = Undefined
      \<or> (get p ''text'' = Undefined \<and> get p ''files'' = Undefined)
    \<longrightarrow> validateMessage p = Undefined)
   \<and> (truthy (get p ''id'') \<and> truthy (get p ''personId'')
      \<and> truthy (get p ''personEmail'') \<and> truthy (get p ''roomId'')
      \<and> truthy (get p ''created'')
      \<and> (truthy (get p ''text'') \<or> truthy (get p ''files''))
    \<longrightarrow> validateMessage p = p \<and> p \<noteq> Undefined)"
proof (intro conjI impI)
  assume "get p ''id'' = Undefined \<or> get p ''personId'' = Undefined
      \<or> get p ''personEmail'' = Undefined \<or> get p ''roomId'' = Undefined
      \<or> get p ''created'' = Undefined
      \<or> (get p ''text'' = Undefined \<and> get p ''files'' = Undefined)"
  then show "validateMessage p = Undefined" by (auto simp: validateMessage_def)
next
  assume a: "truthy (get p ''id'') \<and> truthy (get p ''personId'')
      \<and> truthy (get p ''personEmail'') \<and> truthy (get p ''roomId'')
      \<and> truthy (get p ''created'')
      \<and> (truthy (get p ''text'') \<or> truthy (get p ''files''))"
  then show "validateMessage p = p" by (intro validateMessage_accepts(1)) simp_all
  from a show "p \<noteq> Undefined" by (intro validateMessage_accepts(2) [of p]) simp_all
qed

theorem validateMessage_required_fields_witness:
  "validateMessage (Obj [(''id'', Str ''m1''), (''personId'', Str ''p1''),
        (''personEmail'', Str ''matt@example.com''), (''roomId'', Str ''r1''),
        (''text'', Str ''hello'')])
   = Undefined
   \<and> validateMessage (Obj [(''id'', Str ''m1''), (''personId'', Str ''p1''),
        (''personEmail'', Str ''matt@example.com''), (''roomId'', Str ''r1''),
        (''created'', Str ''2015-10-18T14:26:16+00:00'')])
   = Undefined
   \<and> validateMessage (Obj [(''id'', Str ''m1''), (''personId'', Str ''p1''),
        (''personEmail'', Str ''matt@example.com''), (''roomId'', Str ''r1''),
        (''text'', Str ''hello''), (''created'', Str ''2015-10-18T14:26:16+00:00'')])
   = Obj [(''id'', Str ''m1''), (''personId'', Str ''p1''),
        (''personEmail'', Str ''matt@example.com''), (''roomId'', Str ''r1''),
        (''text'', Str ''hello''), (''created'', Str ''2015-10-18T14:26:16+00:00'')]"
  using validateMessage_required_fields
    [of "Obj [(''id'', Str ''m1''), (''personId'', Str ''p1''),
        (''personEmail'', Str ''matt@example.com''), (''roomId'', Str ''r1''),
        (''text'', Str ''hello'')]"]
    validateMessage_required_fields
    [of "Obj [(''id'', Str ''m1''), (''personId'', Str ''p1''),
        (''personEmail'', Str ''matt@example.com''), (''roomId'', Str ''r1''),
        (''created'', Str ''2015-10-18T14:26:16+00:00'')]"]
    validateMessage_required_fields
    [of "Obj [(''id'', Str ''m1''), (''personId'', Str ''p1''),
        (''personEmail'', Str ''matt@example.com''), (''roomId'', Str ''r1''),
        (''text'', Str ''hello''), (''created'', Str ''2015-10-18T14:26:16+00:00'')]"]
  by simp

text \<open>
  Against claim C9 as stated: this payload has all five fields and a text, and it is
  rejected, because its id is the empty string.
\<close>

theorem validateMessage_empty_id_counterexample:
  "get (Obj [(''id'', Str ''''), (''personId'', Str ''p1''),
        (''personEmail'', Str ''matt@example.com''), (''roomId'', Str ''r1''),
        (''text'', Str ''hello''), (''created'', Str ''2015-10-18T14:26:16+00:00'')]) ''id''
   = Str ''''
   \<and> validateMessage (Obj [(''id'', Str ''''), (''personId'', Str ''p1''),
        (''personEmail'', Str ''matt@example.com''), (''roomId'', Str ''r1''),
        (''text'', Str ''hello''), (''created'', Str ''2015-10-18T14:26:16+00:00'')])
   = Undefined"
  by (simp add: validateMessage_def)

text \<open>
  Claim C10. validateMessage tests its fields by truthiness. A required field that is the
  empty string rejects the payload. A text that is the empty string does not count: with
  no truthy files the payload is rejected. A files that is the empty list does count: with
  the five required fields truthy the payload is returned as it is, also when it has no
  text.
\<close>

theorem validateMessage_truthiness:
  "(get p ''id'' = Str '''' \<or> get p ''personId'' = Str ''''
      \<or> get p ''personEmail'' = Str '''' \<or> get p ''roomId'' = Str ''''
      \<or> get p ''created'' = Str ''''
    \<longrightarrow> validateMessage p = Undefined)
   \<and> (get p ''text'' = Str '''' \<and> \<not> truthy (get p ''files'')
    \<longrightarrow> validateMessage p = Undefined)
   \<and> (truthy (get p ''id'') \<and> truthy (get p ''personId'')
      \<and> truthy (get p ''personEmail'') \<and> truthy (get p ''roomId'')
      \<and> truthy (get p ''created'')
      \<and> get p ''text'' = Undefined \<and> get p ''files'' = Arr []
    \<longrightarrow> validateMessage p = p \<and> p \<noteq> Undefined)"
proof (intro conjI impI)
  assume "get p ''id'' = Str '''' \<or> get p ''personId'' = Str ''''
      \<or> get p ''personEmail'' = Str '''' \<or> get p ''roomId'' = Str ''''
      \<or> get p ''created'' = Str ''''"
  then show "validateMessage p = Undefined" by (auto simp: validateMessage_def)
next
  assume "get p ''text'' = Str '''' \<and> \<not> truthy (get p ''files'')"
  then show "validateMessage p = Undefined" by (simp add: validateMessage_def)
next
  assume a: "truthy (get p ''id'') \<and> truthy (get p ''personId'')
      \<and> truthy (get p ''personEmail'') \<and> truthy (get p ''roomId'')
      \<and> truthy (get p ''created'')
      \<and> get p ''text'' = Undefined \<and> get p ''files'' = Arr []"
  then show "validateMessage p = p" by (intro validateMessage_accepts(1)) simp_all
  from a show "p \<noteq> Undefined" by (intro validateMessage_accepts(2) [of p]) simp_all
qed

theorem validateMessage_truthiness_witness:
  "validateMessage (Obj [(''id'', Str ''m1''), (''personId'', Str ''p1''),
        (''personEmail'', Str ''''), (''roomId'', Str ''r1''),
        (''text'', Str ''hello''), (''created'', Str ''2015-10-18T14:26:16+00:00'')])
   = Undefined
   \<and> validateMessage (Obj [(''id'', Str ''m1''), (''personId'', Str ''p1''),
        (''personEmail'', Str ''matt@example.com''), (''roomId'', Str ''r1''),
        (''text'', Str ''''), (''created'', Str ''2015-10-18T14:26:16+00:00'')])
   = Undefined
   \<and> validateMessage (Obj [(''id'', Str ''m1''), (''personId'', Str ''p1''),
        (''personEmail'', Str ''matt@example.com''), (''roomId'', Str ''r1''),
        (''files'', Arr []), (''created'', Str ''2015-10-18T14:26:16+00:00'')])
   = Obj [(''id'', Str ''m1''), (''personId'', Str ''p1''),
        (''personEmail'', Str ''matt@example.com''), (''roomId'', Str ''r1''),
        (''files'', Arr []), (''created'', Str ''2015-10-18T14:26:16+00:00'')]"
  using validateMessage_truthiness
    [of "Obj [(''id'', Str ''m1''), (''personId'', Str ''p1''),
        (''personEmail'', Str ''''), (''roomId'', Str ''r1''),
        (''text'', Str ''hello''), (''created'', Str ''2015-10-18T14:26:16+00:00'')]"]
    validateMessage_truthiness
    [of "Obj [(''id'', Str ''m1''), (''personId'', Str ''p1''),
        (''personEmail'', Str ''matt@example.com''), (''roomId'', Str ''r1''),
        (''text'', Str ''''), (''created'', Str ''2015-10-18T14:26:16+00:00'')]"]
    validateMessage_truthiness
    [of "Obj [(''id'', Str ''m1''), (''personId'', Str ''p1''),
        (''personEmail'', Str ''matt@example.com''), (''roomId'', Str ''r1''),
        (''files'', Arr []), (''created'', Str ''2015-10-18T14:26:16+00:00'')]"]
  by simp

end
